theory Spec2Isabelle
  imports Main
begin

section \<open>NumPy primitives used by the feature ranker\<close>

text \<open>
  Relevance scores are floating-point numbers in the source. The ranking only compares
  them, so a score is an element of a linear order (NaN is outside the model).

  \<^verbatim>\<open>np.argsort(f)\<close> returns the indices that sort \<open>f\<close> ascending. It is modelled by
  the insertion sort of the indices \<open>0..<len(f)\<close> by their score, which keeps equal
  scores in index order; NumPy's default sort is exactly an insertion sort on arrays of
  at most 16 elements.
\<close>

definition argsort :: "'s::linorder list \<Rightarrow> nat list" where
  "argsort f = sort_key (\<lambda>i. f ! i) [0..<length f]"

text \<open>
  The slice \<^verbatim>\<open>a[-k:]\<close> for \<open>k \<ge> 0\<close>: the last \<open>k\<close> elements, all of \<open>a\<close> when
  \<open>k\<close> exceeds its length, and all of \<open>a\<close> as well when \<open>k = 0\<close> (since \<open>-0 = 0\<close>).
\<close>

definition last_k :: "nat \<Rightarrow> 'a list \<Rightarrow> 'a list" where
  "last_k k xs = (if k = 0 then xs else drop (length xs - k) xs)"

text \<open>\<^verbatim>\<open>top_k = np.argsort(f)[-show_top:][::-1]\<close>\<close>

definition top_k :: "'s::linorder list \<Rightarrow> nat \<Rightarrow> nat list" where
  "top_k f show_top = rev (last_k show_top (argsort f))"



section \<open>Errors\<close>

text \<open>The exceptions the modelled code can raise; a computation returns \<open>Inl\<close> of one.\<close>

datatype py_error =
    KeyError | IndexError | IndexingError | NameError | ValueError
  | AssertionError | AttributeError | TypeError

definition ebind :: "py_error + 'a \<Rightarrow> ('a \<Rightarrow> py_error + 'b) \<Rightarrow> py_error + 'b" where
  "ebind m k = (case m of Inl e \<Rightarrow> Inl e | Inr x \<Rightarrow> k x)"

text \<open>\<^verbatim>\<open>xs[i]\<close> for a non-negative index.\<close>

definition item :: "'a list \<Rightarrow> nat \<Rightarrow> py_error + 'a" where
  "item xs i = (if i < length xs then Inr (xs ! i) else Inl IndexError)"

section \<open>Data model\<close>

text \<open>
  A column is a list of cells, \<open>None\<close> standing for a missing value. A dataframe is the
  list of its named columns, in column order. The type annotation (the output of
  \<^verbatim>\<open>detect_types\<close>) has one row of boolean flags per column name; the source reads the
  flags \<^verbatim>\<open>continuous\<close>, \<^verbatim>\<open>categorical\<close> and \<^verbatim>\<open>low_card_int\<close>.
\<close>

type_synonym 'v column = "'v option list"

type_synonym 'v dataframe = "(string \<times> 'v column) list"

record type_row =
  continuous :: bool
  categorical :: bool
  low_card_int :: bool

type_synonym types_df = "(string \<times> type_row) list"

definition columns :: "'v dataframe \<Rightarrow> string list" where
  "columns X = map fst X"

text \<open>\<^verbatim>\<open>X[col]\<close>\<close>

definition get_column :: "'v dataframe \<Rightarrow> string \<Rightarrow> py_error + 'v column" where
  "get_column X col = (case map_of X col of None \<Rightarrow> Inl KeyError | Some x \<Rightarrow> Inr x)"

text \<open>
  \<^verbatim>\<open>X.loc[:, mask]\<close> with a boolean mask indexed by column name: pandas aligns the mask
  with the columns and refuses a mask that lacks one of them.
\<close>

definition loc_columns ::
  "(type_row \<Rightarrow> bool) \<Rightarrow> types_df \<Rightarrow> 'v dataframe \<Rightarrow> py_error + 'v dataframe" where
  "loc_columns flag types X =
     (if list_all (\<lambda>c. c \<in> set (map fst types)) (columns X)
      then Inr (filter (\<lambda>(c, x). case map_of types c of Some r \<Rightarrow> flag r | None \<Rightarrow> False) X)
      else Inl IndexingError)"

text \<open>\<^verbatim>\<open>features.drop(col, axis=1)\<close> removes every column carrying the label.\<close>

definition drop_column :: "string \<Rightarrow> 'v dataframe \<Rightarrow> 'v dataframe" where
  "drop_column col X = filter (\<lambda>(c, x). c \<noteq> col) X"

text \<open>
  The first three statements of each of the four panel functions:
  \<^verbatim>\<open>features = X.loc[:, types.<flag>]\<close>, then
  \<^verbatim>\<open>if target_col in features.columns: features = features.drop(target_col, axis=1)\<close>.
\<close>

definition panel_features ::
  "(type_row \<Rightarrow> bool) \<Rightarrow> 'v dataframe \<Rightarrow> string \<Rightarrow> types_df \<Rightarrow> py_error + 'v dataframe" where
  "panel_features flag X target_col types =
     ebind (loc_columns flag types X) (\<lambda>features.
       Inr (if target_col \<in> set (columns features) then drop_column target_col features
            else features))"

text \<open>\<^verbatim>\<open>Series.nunique()\<close>: the number of distinct values, missing values not counted.\<close>

definition nunique :: "'v column \<Rightarrow> nat" where
  "nunique x = length (remdups (List.map_filter id x))"

text \<open>
  \<^verbatim>\<open>x.astype('category').cat.codes\<close>: the categories are the sorted distinct values, a
  cell's code is the position of its value among them, and a missing cell has code \<open>-1\<close>.
\<close>

definition categories :: "'v::linorder column \<Rightarrow> 'v list" where
  "categories x = sort (remdups (List.map_filter id x))"

definition cat_codes :: "'v::linorder column \<Rightarrow> int list" where
  "cat_codes x =
     map (\<lambda>cell. case cell of None \<Rightarrow> - 1
                  | Some v \<Rightarrow> int (length (takeWhile (\<lambda>c. c \<noteq> v) (categories x)))) x"

text \<open>\<^verbatim>\<open>features.apply(lambda x: x.cat.codes)\<close>: column by column.\<close>

definition ordinal_encode :: "'v::linorder dataframe \<Rightarrow> (string \<times> int list) list" where
  "ordinal_encode features = map (\<lambda>(c, x). (c, cat_codes x)) features"


section \<open>Collaborators outside the two source files\<close>

text \<open>
  The statistical estimators (scikit-learn) and the helpers of \<^verbatim>\<open>dabl.plot.utils\<close> and
  \<^verbatim>\<open>dabl.preprocessing\<close> are parameters of the model:
  \<^item> \<open>get_n_top\<close> is \<^verbatim>\<open>_get_n_top(features, name)\<close>, the number of features to show;
  \<^item> \<open>make_subplots\<close> is \<^verbatim>\<open>_make_subplots(n_plots=...)\<close>, reduced to the number of axes
    of the grid it returns (\<^verbatim>\<open>axes.size\<close>);
  \<^item> \<open>impute\<close> is \<^verbatim>\<open>SimpleImputer().fit_transform\<close>;
  \<^item> \<open>f_regression\<close> and \<open>f_classif\<close> return the F statistics of a matrix against a target;
  \<^item> \<open>mi_regression\<close> and \<open>mi_classif\<close> are the mutual information of one encoded
    column with the target, given the column's entry of the discrete-feature mask;
  \<^item> \<open>guess_ordinal\<close> is \<^verbatim>\<open>guess_ordinal(X[col])\<close>.
\<close>

record ('v, 's) env =
  get_n_top :: "'v dataframe \<Rightarrow> string \<Rightarrow> nat"
  make_subplots :: "nat \<Rightarrow> nat"
  impute :: "'v column list \<Rightarrow> 'v column list"
  f_regression :: "'v column list \<Rightarrow> 'v column \<Rightarrow> 's list"
  f_classif :: "'v column list \<Rightarrow> 'v column \<Rightarrow> 's list"
  mi_regression :: "int list \<Rightarrow> 'v column \<Rightarrow> bool \<Rightarrow> 's"
  mi_classif :: "int list \<Rightarrow> 'v column \<Rightarrow> bool \<Rightarrow> 's"
  guess_ordinal :: "'v column \<Rightarrow> bool"

text \<open>
  \<^verbatim>\<open>mutual_info_regression(X, y, discrete_features=mask)\<close> and
  \<^verbatim>\<open>mutual_info_classif\<close> score each column of \<open>X\<close> paired with its mask entry, the
  pairing being a \<^verbatim>\<open>zip\<close> of the columns with the mask.
\<close>

definition estimate_mi ::
  "(int list \<Rightarrow> 'y \<Rightarrow> bool \<Rightarrow> 's) \<Rightarrow> int list list \<Rightarrow> 'y \<Rightarrow> bool list \<Rightarrow> 's list" where
  "estimate_mi compute_mi cols y discrete_mask =
     map (\<lambda>(x, d). compute_mi x y d) (zip cols discrete_mask)"

section \<open>The panel functions of \<^verbatim>\<open>dabl/plot/supervised.py\<close>\<close>

text \<open>
  What a panel function computes: the columns of the matrix it scores, the score array
  \<open>f\<close>, the ranking \<open>top_k\<close>, and one entry per axis it draws on.
\<close>

record ('s, 'p) ranking =
  scored :: "string list"
  scores :: "'s list"
  selected :: "nat list"
  panels :: "'p list"

text \<open>A \<^verbatim>\<open>for\<close> loop whose body may raise, collecting what each iteration draws.\<close>

fun for_each :: "('a \<Rightarrow> py_error + 'p) \<Rightarrow> 'a list \<Rightarrow> py_error + 'p list" where
  "for_each body [] = Inr []"
| "for_each body (x # xs) =
     ebind (body x) (\<lambda>p. ebind (for_each body xs) (\<lambda>ps. Inr (p # ps)))"

text \<open>
  \<^verbatim>\<open>for i, (col_idx, ax) in enumerate(zip(top_k, axes.ravel()))\<close>: the \<^verbatim>\<open>zip\<close> stops at
  the shorter of the ranking and the axes. The loop that follows it,
  \<^verbatim>\<open>for j in range(i + 1, axes.size)\<close>, reads \<open>i\<close>, which is unbound when the first loop
  had no iteration.
\<close>

definition draw_panels ::
  "(nat \<times> nat \<Rightarrow> py_error + 'p) \<Rightarrow> nat list \<Rightarrow> nat \<Rightarrow> py_error + 'p list" where
  "draw_panels body tk n_axes =
     ebind (for_each body (enumerate 0 (take n_axes tk)))
       (\<lambda>ps. if ps = [] then Inl NameError else Inr ps)"

text \<open>Lines 50 to 87. A panel is the column scattered against the target and the score in its title.\<close>

definition plot_regression_continuous ::
  "('v, 's::linorder) env \<Rightarrow> 'v dataframe \<Rightarrow> string \<Rightarrow> types_df
   \<Rightarrow> py_error + ('s, string \<times> 's) ranking option" where
  "plot_regression_continuous env X target_col types =
     ebind (panel_features continuous X target_col types) (\<lambda>features.
       if length features = 0 then Inr None
       else
         let show_top = get_n_top env features ''continuous'' in
         ebind (get_column X target_col) (\<lambda>target.
           let features_imp = impute env (map snd features);
               f = f_regression env features_imp target;
               tk = top_k f show_top;
               n_axes = make_subplots env show_top
           in ebind
                (draw_panels
                   (\<lambda>(i, col_idx).
                      ebind (item (columns features) col_idx) (\<lambda>col.
                      ebind (item f col_idx) (\<lambda>score. Inr (col, score))))
                   tk n_axes)
                (\<lambda>ps. Inr (Some \<lparr>scored = columns features, scores = f,
                                  selected = tk, panels = ps\<rparr>))))"

text \<open>
  Lines 122 to 126:
  \<^verbatim>\<open>f = mutual_info_regression(ordinal_encoded, target,
        discrete_features=np.ones(X.shape[1], dtype=bool))\<close>.
  The mask has one entry per column of \<open>X\<close>, not per column of \<open>features\<close>.
\<close>

definition regression_categorical_scores ::
  "('v::linorder, 's) env \<Rightarrow> 'v dataframe \<Rightarrow> 'v dataframe \<Rightarrow> 'v column \<Rightarrow> 's list" where
  "regression_categorical_scores env X features target =
     estimate_mi (mi_regression env) (map snd (ordinal_encode features)) target
       (replicate (length X) True)"

text \<open>
  Lines 109 to 145. A panel is the column of the box plot and the score in its title.
  Line 134 reads \<^verbatim>\<open>col = features.columns[i]\<close>, with the loop counter \<open>i\<close>.
\<close>

definition plot_regression_categorical ::
  "('v::linorder, 's::linorder) env \<Rightarrow> 'v dataframe \<Rightarrow> string \<Rightarrow> types_df
   \<Rightarrow> py_error + ('s, string \<times> 's) ranking option" where
  "plot_regression_categorical env X target_col types =
     ebind (panel_features categorical X target_col types) (\<lambda>features.
       if length features = 0 then Inr None
       else
         let show_top = get_n_top env features ''categorical'' in
         ebind (get_column X target_col) (\<lambda>target.
           let f = regression_categorical_scores env X features target;
               tk = top_k f show_top;
               n_axes = make_subplots env show_top
           in ebind
                (draw_panels
                   (\<lambda>(i, col_ind).
                      ebind (item (columns features) i) (\<lambda>col.
                      ebind (item f col_ind) (\<lambda>score. Inr (col, score))))
                   tk n_axes)
                (\<lambda>ps. Inr (Some \<lparr>scored = columns features, scores = f,
                                  selected = tk, panels = ps\<rparr>))))"


text \<open>
  Lines 196 to 252, up to the univariate plots. With at most five features the function
  draws a pair plot and computes no score. Otherwise it ranks the features by
  \<^verbatim>\<open>f_classif\<close>, keeps \<^verbatim>\<open>best_features = features.iloc[:, top_k]\<close> and draws one
  histogram per axis, of column \<^verbatim>\<open>best_features.columns[i]\<close>, or one density per best
  feature. The pairwise, PCA and LDA plots that follow read the same imputed matrix.
\<close>

datatype 's univariate =
    Pairplot "string list"
  | Kde "('s, string) ranking"
  | Histogram "('s, string \<times> 's) ranking"

text \<open>The columns of the feature matrix behind a result.\<close>

fun univariate_columns :: "'s univariate \<Rightarrow> string list" where
  "univariate_columns (Pairplot cols) = cols"
| "univariate_columns (Kde r) = scored r"
| "univariate_columns (Histogram r) = scored r"

definition plot_classification_continuous ::
  "('v, 's::linorder) env \<Rightarrow> 'v dataframe \<Rightarrow> string \<Rightarrow> types_df \<Rightarrow> string
   \<Rightarrow> py_error + 's univariate option" where
  "plot_classification_continuous env X target_col types univariate_plot =
     ebind (panel_features continuous X target_col types) (\<lambda>features.
       if length features = 0 then Inr None
       else
         let features_imp = impute env (map snd features) in
         ebind (get_column X target_col) (\<lambda>target.
           if length features \<le> 5 then Inr (Some (Pairplot (columns features)))
           else
             let show_top = get_n_top env features ''continuous'';
                 f = f_classif env features_imp target;
                 tk = top_k f show_top
             in ebind (for_each (item (columns features)) tk) (\<lambda>best_features.
                  if univariate_plot = ''kde'' then
                    Inr (Some (Kde \<lparr>scored = columns features, scores = f,
                                     selected = tk, panels = best_features\<rparr>))
                  else if univariate_plot = ''histogram'' then
                    ebind
                      (draw_panels
                         (\<lambda>(i, ind).
                            ebind (item (best_features @ [target_col]) i) (\<lambda>col.
                            ebind (item f ind) (\<lambda>score. Inr (col, score))))
                         tk (make_subplots env show_top))
                      (\<lambda>ps. Inr (Some (Histogram \<lparr>scored = columns features, scores = f,
                                                   selected = tk, panels = ps\<rparr>)))
                  else Inl ValueError)))"

text \<open>Lines 382 to 386: the plot kind, resolved from the number of classes of the target.\<close>

definition resolve_kind :: "string \<Rightarrow> 'v column \<Rightarrow> string" where
  "resolve_kind kind target =
     (if kind = ''auto'' then (if nunique target > 5 then ''count'' else ''mosaic'')
      else kind)"

text \<open>Lines 400 to 404.\<close>

definition classification_categorical_scores ::
  "('v::linorder, 's) env \<Rightarrow> 'v dataframe \<Rightarrow> 'v dataframe \<Rightarrow> 'v column \<Rightarrow> 's list" where
  "classification_categorical_scores env X features target =
     estimate_mi (mi_classif env) (map snd (ordinal_encode features)) target
       (replicate (length X) True)"

text \<open>
  Lines 381 to 446. A panel is the column plotted and the kind of plot drawn for it; a
  kind other than the three known ones raises \<^verbatim>\<open>ValueError\<close> in the first iteration.
\<close>

definition plot_classification_categorical ::
  "('v::linorder, 's::linorder) env \<Rightarrow> 'v dataframe \<Rightarrow> string \<Rightarrow> types_df \<Rightarrow> string
   \<Rightarrow> py_error + ('s, string \<times> string) ranking option" where
  "plot_classification_categorical env X target_col types kind0 =
     ebind (if kind0 = ''auto''
            then ebind (get_column X target_col) (\<lambda>target. Inr (resolve_kind kind0 target))
            else Inr kind0) (\<lambda>kind.
     ebind (panel_features categorical X target_col types) (\<lambda>features.
       if length features = 0 then Inr None
       else
         let show_top = get_n_top env features ''categorical'' in
         ebind (get_column X target_col) (\<lambda>target.
           let f = classification_categorical_scores env X features target;
               tk = top_k f show_top;
               n_axes = make_subplots env show_top
           in ebind
                (draw_panels
                   (\<lambda>(i, col_ind).
                      ebind (item (columns features) col_ind) (\<lambda>col.
                        if kind = ''proportion'' \<or> kind = ''mosaic'' \<or> kind = ''count''
                        then Inr (col, kind) else Inl ValueError))
                   tk n_axes)
                (\<lambda>ps. Inr (Some \<lparr>scored = columns features, scores = f,
                                  selected = tk, panels = ps\<rparr>)))))"

text \<open>
  Lines 489 to 497 of \<^verbatim>\<open>plot\<close>. \<^verbatim>\<open>types.loc[col, flag] = value\<close> sets the flag in
  every row labelled \<open>col\<close>. The columns to visit, \<^verbatim>\<open>types.index[types.low_card_int]\<close>,
  are computed once, before the loop.
\<close>

definition set_row :: "string \<Rightarrow> (type_row \<Rightarrow> type_row) \<Rightarrow> types_df \<Rightarrow> types_df" where
  "set_row col upd types = map (\<lambda>(c, r). if c = col then (c, upd r) else (c, r)) types"

fun resolve_loop ::
  "('v column \<Rightarrow> bool) \<Rightarrow> 'v dataframe \<Rightarrow> string list \<Rightarrow> types_df \<Rightarrow> py_error + types_df" where
  "resolve_loop guess X [] types = Inr types"
| "resolve_loop guess X (col # cols) types =
     ebind (get_column X col) (\<lambda>x.
       if guess x
       then resolve_loop guess X cols
              (set_row col (\<lambda>r. r\<lparr>continuous := True\<rparr>)
                 (set_row col (\<lambda>r. r\<lparr>low_card_int := False\<rparr>) types))
       else resolve_loop guess X cols
              (set_row col (\<lambda>r. r\<lparr>categorical := True\<rparr>)
                 (set_row col (\<lambda>r. r\<lparr>low_card_int := False\<rparr>) types)))"

definition resolve_low_card_int ::
  "('v column \<Rightarrow> bool) \<Rightarrow> 'v dataframe \<Rightarrow> types_df \<Rightarrow> py_error + types_df" where
  "resolve_low_card_int guess X types =
     (if list_ex (\<lambda>(c, r). low_card_int r) types
      then resolve_loop guess X (map fst (filter (\<lambda>(c, r). low_card_int r) types)) types
      else Inr types)"

text \<open>
  The row of column \<open>col\<close> after one iteration of that loop, \<open>x\<close> being \<^verbatim>\<open>X[col]\<close>.
\<close>

definition resolved_row :: "('v column \<Rightarrow> bool) \<Rightarrow> 'v column \<Rightarrow> type_row \<Rightarrow> type_row" where
  "resolved_row guess x r =
     (if guess x then r\<lparr>low_card_int := False, continuous := True\<rparr>
      else r\<lparr>low_card_int := False, categorical := True\<rparr>)"

text \<open>
  Lines 499 to 539 of \<^verbatim>\<open>plot\<close>: the branch on the type of the target and the calls of
  the panel functions, with the keyword defaults of the panel functions. The cast of the
  target to floating point in the regression branch changes no column name and no type
  flag, and is left out.
\<close>

datatype 's figures =
    Regression "('s, string \<times> 's) ranking option" "('s, string \<times> 's) ranking option"
  | Classification "'s univariate option" "('s, string \<times> string) ranking option"

definition plot_panels ::
  "('v::linorder, 's::linorder) env \<Rightarrow> 'v dataframe \<Rightarrow> string \<Rightarrow> types_df
   \<Rightarrow> py_error + 's figures" where
  "plot_panels env X target_col types =
     ebind (case map_of types target_col of None \<Rightarrow> Inl KeyError | Some r \<Rightarrow> Inr r) (\<lambda>r.
       if continuous r then
         ebind (plot_regression_continuous env X target_col types) (\<lambda>a.
         ebind (plot_regression_categorical env X target_col types) (\<lambda>b.
           Inr (Regression a b)))
       else
         ebind (plot_classification_continuous env X target_col types ''histogram'') (\<lambda>a.
         ebind (plot_classification_categorical env X target_col types ''auto'') (\<lambda>b.
           Inr (Classification a b))))"

text \<open>
  \<^verbatim>\<open>plot\<close>, from line 487 on: \<open>X\<close> and \<open>types\<close> are the cleaned dataframe and the
  annotation that \<^verbatim>\<open>_check_X_target_col\<close> returned. The panel functions receive the
  annotation that the loop over the low-cardinality integers has rewritten.
\<close>

definition plot ::
  "('v::linorder, 's::linorder) env \<Rightarrow> 'v dataframe \<Rightarrow> string \<Rightarrow> types_df
   \<Rightarrow> py_error + 's figures" where
  "plot env X target_col types =
     ebind (resolve_low_card_int (guess_ordinal env) X types) (plot_panels env X target_col)"

section \<open>The estimator explainer of \<^verbatim>\<open>dabl/explain.py\<close>\<close>















section \<open>Worked inputs\<close>

text \<open>
  A dataframe with two continuous features, two categorical features and a target, its
  type annotation, and stand-ins for the collaborators: every feature is shown, the grid
  has one axis per plot, the imputer changes nothing, and a column's score is the number
  of its distinct values.
\<close>

definition demo_X :: "nat dataframe" where
  "demo_X =
     [(''a'', [Some 1, Some 1, Some 1]), (''b'', [Some 1, Some 2, Some 2]),
      (''c'', [Some 4, Some 4, Some 4]), (''d'', [Some 5, Some 6, Some 7]),
      (''y'', [Some 7, Some 8, Some 9])]"

definition demo_row :: "bool \<Rightarrow> bool \<Rightarrow> bool \<Rightarrow> type_row" where
  "demo_row co ca lo = \<lparr>continuous = co, categorical = ca, low_card_int = lo\<rparr>"

definition demo_types :: types_df where
  "demo_types =
     [(''a'', demo_row True False False), (''b'', demo_row True False False),
      (''c'', demo_row False True False), (''d'', demo_row False True False),
      (''y'', demo_row True False False)]"

definition demo_env :: "(nat, nat) env" where
  "demo_env =
     \<lparr>get_n_top = (\<lambda>features name. length features),
      make_subplots = (\<lambda>n_plots. n_plots),
      impute = (\<lambda>cols. cols),
      f_regression = (\<lambda>cols y. map nunique cols),
      f_classif = (\<lambda>cols y. map nunique cols),
      mi_regression = (\<lambda>x y d. length (remdups x)),
      mi_classif = (\<lambda>x y d. length (remdups x)),
      guess_ordinal = (\<lambda>x. nunique x > 2)\<rparr>"



text \<open>The annotation of \<open>demo_X\<close> with the columns \<open>b\<close> and \<open>d\<close> typed as low-cardinality integers.\<close>

definition low_card_types :: types_df where
  "low_card_types =
     [(''a'', demo_row True False False), (''b'', demo_row False False True),
      (''c'', demo_row False True False), (''d'', demo_row False False True),
      (''y'', demo_row True False False)]"






section \<open>The ranking\<close>












text \<open>With \<open>show_top = 0\<close> the slice \<^verbatim>\<open>[-0:]\<close> keeps every index.\<close>

lemma top_k_zero: "top_k f 0 = rev (argsort f)"
  by (simp add: top_k_def last_k_def)





section \<open>Continuous features against a regression target\<close>





section \<open>Ties\<close>





section \<open>The target is not a feature\<close>

lemma panel_features_exclude:
  "panel_features flag X target_col types = Inr features \<Longrightarrow> target_col \<notin> set (columns features)"
  by (auto simp: panel_features_def ebind_def drop_column_def columns_def
      split: sum.splits if_splits)


lemma regression_continuous_scored:
  "plot_regression_continuous env X target_col types = Inr (Some r)
   \<Longrightarrow> \<exists>features. panel_features continuous X target_col types = Inr features
         \<and> scored r = columns features"
  by (auto simp: plot_regression_continuous_def ebind_def Let_def
      split: sum.splits if_splits)

lemma regression_categorical_scored:
  "plot_regression_categorical env X target_col types = Inr (Some r)
   \<Longrightarrow> \<exists>features. panel_features categorical X target_col types = Inr features
         \<and> scored r = columns features"
  by (auto simp: plot_regression_categorical_def ebind_def Let_def
      split: sum.splits if_splits)

lemma classification_continuous_scored:
  "plot_classification_continuous env X target_col types u = Inr (Some r)
   \<Longrightarrow> \<exists>features. panel_features continuous X target_col types = Inr features
         \<and> univariate_columns r = columns features"
  by (auto simp: plot_classification_continuous_def ebind_def Let_def
      split: sum.splits if_splits)

lemma classification_categorical_scored:
  "plot_classification_categorical env X target_col types kind = Inr (Some r)
   \<Longrightarrow> \<exists>features. panel_features categorical X target_col types = Inr features
         \<and> scored r = columns features"
  by (auto simp: plot_classification_categorical_def ebind_def Let_def
      split: sum.splits if_splits)


lemmas demo_defs =
  panel_features_def loc_columns_def columns_def drop_column_def ebind_def get_column_def
  draw_panels_def item_def top_k_def last_k_def argsort_def nunique_def
  List.map_filter_def enumerate_eq_zip demo_X_def demo_types_def demo_row_def demo_env_def

lemma demo_regression_continuous:
  "plot_regression_continuous demo_env demo_X ''y'' demo_types =
     Inr (Some \<lparr>scored = [''a'', ''b''], scores = [1, 2], selected = [1, 0],
                panels = [(''b'', 2), (''a'', 1)]\<rparr>)"
  by (simp add: plot_regression_continuous_def demo_defs)

lemma demo_regression_categorical:
  "plot_regression_categorical demo_env demo_X ''y'' demo_types =
     Inr (Some \<lparr>scored = [''c'', ''d''], scores = [1, 3], selected = [1, 0],
                panels = [(''c'', 3), (''d'', 1)]\<rparr>)"
  by (simp add: plot_regression_categorical_def regression_categorical_scores_def
      estimate_mi_def ordinal_encode_def cat_codes_def categories_def demo_defs)

lemma demo_classification_continuous:
  "plot_classification_continuous demo_env demo_X ''y'' demo_types ''histogram'' =
     Inr (Some (Pairplot [''a'', ''b'']))"
  by (simp add: plot_classification_continuous_def demo_defs)

lemma demo_classification_categorical:
  "plot_classification_categorical demo_env demo_X ''y'' demo_types ''auto'' =
     Inr (Some \<lparr>scored = [''c'', ''d''], scores = [1, 3], selected = [1, 0],
                panels = [(''d'', ''mosaic''), (''c'', ''mosaic'')]\<rparr>)"
  by (simp add: plot_classification_categorical_def classification_categorical_scores_def
      resolve_kind_def estimate_mi_def ordinal_encode_def cat_codes_def categories_def
      demo_defs)

text \<open>
  Claim C9. In each of the four panel functions, whatever the dataframe, the annotation
  and the target column, the feature matrix that is scored (or, when there are at most
  five continuous features in classification, plotted without scoring) has no column
  labelled with the target.
\<close>

theorem scored_features_exclude_target:
  "(\<forall>r. plot_regression_continuous env X target_col types = Inr (Some r)
        \<longrightarrow> target_col \<notin> set (scored r))
   \<and> (\<forall>r. plot_regression_categorical env X target_col types = Inr (Some r)
        \<longrightarrow> target_col \<notin> set (scored r))
   \<and> (\<forall>r u. plot_classification_continuous env X target_col types u = Inr (Some r)
        \<longrightarrow> target_col \<notin> set (univariate_columns r))
   \<and> (\<forall>r kind. plot_classification_categorical env X target_col types kind = Inr (Some r)
        \<longrightarrow> target_col \<notin> set (scored r))"
  using regression_continuous_scored [of env X target_col types]
    regression_categorical_scored [of env X target_col types]
    classification_continuous_scored [of env X target_col types]
    classification_categorical_scored [of env X target_col types]
    panel_features_exclude [of _ X target_col types]
  by metis

theorem scored_features_exclude_target_witness:
  "(\<exists>r. plot_regression_continuous demo_env demo_X ''y'' demo_types = Inr (Some r)
       \<and> ''y'' \<notin> set (scored r))
   \<and> (\<exists>r. plot_regression_categorical demo_env demo_X ''y'' demo_types = Inr (Some r)
       \<and> ''y'' \<notin> set (scored r))
   \<and> (\<exists>r. plot_classification_continuous demo_env demo_X ''y'' demo_types ''histogram''
            = Inr (Some r)
       \<and> ''y'' \<notin> set (univariate_columns r))
   \<and> (\<exists>r. plot_classification_categorical demo_env demo_X ''y'' demo_types ''auto''
            = Inr (Some r)
       \<and> ''y'' \<notin> set (scored r))"
  using scored_features_exclude_target [of demo_env demo_X "''y''" demo_types]
    demo_regression_continuous demo_regression_categorical
    demo_classification_continuous demo_classification_categorical
  by blast


section \<open>Categorical features\<close>




lemma cat_codes_length: "length (cat_codes x) = length x"
  by (simp add: cat_codes_def)




subsection \<open>The box plots of the regression panel\<close>

lemma for_each_counter_columns:
  "for_each (\<lambda>(i, c). ebind (item cols i) (\<lambda>col. ebind (item f c) (\<lambda>score. Inr (col, score))))
     (enumerate n xs) = Inr ps
   \<Longrightarrow> map fst ps = take (length ps) (drop n cols) \<and> map snd ps = map ((!) f) xs"
proof (induction xs arbitrary: n ps)
  case Nil
  then show ?case by simp
next
  case (Cons x xs)
  from Cons.prems obtain ps' where
    n: "n < length cols" and x: "x < length f" and
    rest: "for_each (\<lambda>(i, c). ebind (item cols i) (\<lambda>col. ebind (item f c) (\<lambda>score. Inr (col, score))))
             (enumerate (Suc n) xs) = Inr ps'" and
    ps: "ps = (cols ! n, f ! x) # ps'"
    by (auto simp: ebind_def item_def split: sum.splits if_splits)
  from Cons.IH [OF rest] n ps show ?case
    by (simp flip: Cons_nth_drop_Suc)
qed

text \<open>
  Claim C3, what the code does. The box plots of \<^verbatim>\<open>plot_regression_categorical\<close> show
  the first columns of the feature matrix in their original order, whatever the ranking:
  line 134 indexes the columns with the loop counter. The titles carry the scores of the
  ranked features. On \<open>demo_X\<close> the first box plot is of column \<open>c\<close>, titled with the
  score of the top-ranked column \<open>d\<close>.
\<close>

theorem regression_categorical_panels_by_counter:
  assumes "plot_regression_categorical env X target_col types = Inr (Some r)"
  shows "map fst (panels r) = take (length (panels r)) (scored r)
       \<and> map snd (panels r) = map ((!) (scores r)) (take (length (panels r)) (selected r))"
proof -
  from assms obtain features target ps where
    r: "scored r = columns features" "panels r = ps"
       "scores r = regression_categorical_scores env X features target"
       "selected r = top_k (scores r) (get_n_top env features ''categorical'')" and
    ps: "for_each (\<lambda>(i, c). ebind (item (columns features) i) (\<lambda>col.
                     ebind (item (scores r) c) (\<lambda>score. Inr (col, score))))
           (enumerate 0 (take (make_subplots env (get_n_top env features ''categorical''))
              (selected r))) = Inr ps"
    by (auto simp: plot_regression_categorical_def draw_panels_def ebind_def Let_def
        split: sum.splits if_splits)
  from for_each_counter_columns [OF ps]
  have a: "map fst ps = take (length ps) (columns features)"
    and b: "map snd ps = map ((!) (scores r))
              (take (make_subplots env (get_n_top env features ''categorical'')) (selected r))"
    by simp_all
  from b have "length ps = length (take (make_subplots env (get_n_top env features ''categorical'')) (selected r))"
    by (metis length_map)
  then have "take (length ps) (selected r)
      = take (make_subplots env (get_n_top env features ''categorical'')) (selected r)"
    by (simp add: min_def split: if_splits)
  with a b r show ?thesis by simp
qed

theorem regression_categorical_panels_by_counter_witness:
  "\<exists>r. plot_regression_categorical demo_env demo_X ''y'' demo_types = Inr (Some r)
      \<and> selected r = [1, 0] \<and> scored r = [''c'', ''d'']
      \<and> map fst (panels r) = take (length (panels r)) (scored r)
      \<and> map snd (panels r) = map ((!) (scores r)) (take (length (panels r)) (selected r))"
  using regression_categorical_panels_by_counter [OF demo_regression_categorical]
    demo_regression_categorical
  by simp

subsection \<open>The plot kind of the classification panel\<close>

lemma for_each_all:
  "for_each body xs = Inr ps \<Longrightarrow> (\<And>x p. body x = Inr p \<Longrightarrow> Q p) \<Longrightarrow> list_all Q ps"
  by (induction xs arbitrary: ps) (auto simp: ebind_def split: sum.splits)

lemma ebind_Inr_iff: "ebind m k = Inr y \<longleftrightarrow> (\<exists>x. m = Inr x \<and> k x = Inr y)"
  by (simp add: ebind_def split: sum.splits)

lemma draw_panels_all:
  assumes "draw_panels body tk n_axes = Inr ps" and "\<And>x p. body x = Inr p \<Longrightarrow> Q p"
  shows "ps \<noteq> [] \<and> list_all Q ps"
proof -
  from assms(1) have "for_each body (enumerate 0 (take n_axes tk)) = Inr ps" and "ps \<noteq> []"
    by (auto simp: draw_panels_def ebind_Inr_iff split: if_splits)
  with for_each_all [of body _ ps Q] assms(2) show ?thesis by blast
qed

text \<open>
  Claim C6. With \<^verbatim>\<open>kind='auto'\<close>, every plot that
  \<^verbatim>\<open>plot_classification_categorical\<close> draws is a mosaic plot when the target has at
  most five distinct values, and a count plot when it has more.
\<close>

theorem auto_kind_by_class_count:
  assumes "get_column X target_col = Inr target"
    and "plot_classification_categorical env X target_col types ''auto'' = Inr (Some r)"
  shows "panels r \<noteq> []
       \<and> list_all (\<lambda>p. snd p = (if nunique target \<le> 5 then ''mosaic'' else ''count''))
           (panels r)"
proof -
  have kind: "resolve_kind ''auto'' target = (if nunique target \<le> 5 then ''mosaic'' else ''count'')"
    by (simp add: resolve_kind_def)
  from assms obtain cols tk n_axes where
    "draw_panels
       (\<lambda>(i, col_ind). ebind (item cols col_ind) (\<lambda>col.
          if resolve_kind ''auto'' target = ''proportion''
             \<or> resolve_kind ''auto'' target = ''mosaic''
             \<or> resolve_kind ''auto'' target = ''count''
          then Inr (col, resolve_kind ''auto'' target) else Inl ValueError))
       tk n_axes = Inr (panels r)"
    by (auto simp: plot_classification_categorical_def ebind_Inr_iff Let_def
        split: if_splits)
  then have "panels r \<noteq> [] \<and> list_all (\<lambda>p. snd p = resolve_kind ''auto'' target) (panels r)"
    by (rule draw_panels_all) (auto simp: ebind_Inr_iff split: if_splits)
  with kind show ?thesis by simp
qed

theorem auto_kind_by_class_count_witness:
  "\<exists>r. plot_classification_categorical demo_env demo_X ''y'' demo_types ''auto'' = Inr (Some r)
      \<and> nunique [Some 7, Some 8, Some (9::nat)] = 3
      \<and> panels r \<noteq> [] \<and> list_all (\<lambda>p. snd p = ''mosaic'') (panels r)"
proof -
  have t: "get_column demo_X ''y'' = Inr [Some 7, Some 8, Some 9]"
    by (simp add: get_column_def demo_X_def)
  have n: "nunique [Some 7, Some 8, Some (9::nat)] = 3"
    by (simp add: nunique_def List.map_filter_def)
  from auto_kind_by_class_count [OF t demo_classification_categorical] n
    demo_classification_categorical
  show ?thesis by simp
qed


section \<open>Low-cardinality integers in \<^verbatim>\<open>plot\<close>\<close>

lemma set_row_twice:
  "set_row col g (set_row col h types) = set_row col (\<lambda>r. g (h r)) types"
  by (induction types) (auto simp: set_row_def)

lemma resolved_row_idem: "resolved_row guess x (resolved_row guess x r) = resolved_row guess x r"
  by (simp add: resolved_row_def)

lemma resolve_loop_step:
  "get_column X col = Inr x \<Longrightarrow>
   resolve_loop guess X (col # cols) types =
     resolve_loop guess X cols (set_row col (resolved_row guess x) types)"
  by (simp add: ebind_def set_row_twice resolved_row_def [abs_def] cong: if_cong)

lemma resolve_loop_result:
  assumes "\<forall>c\<in>set cols. c \<in> set (columns X)"
  shows "resolve_loop guess X cols types =
           Inr (map (\<lambda>(c, r). if c \<in> set cols
                                then (c, resolved_row guess (the (map_of X c)) r)
                                else (c, r)) types)"
  using assms
proof (induction cols arbitrary: types)
  case Nil
  then show ?case by (simp add: split_def)
next
  case (Cons col cols)
  from Cons.prems obtain x where x: "map_of X col = Some x"
    by (auto simp: columns_def dest: weak_map_of_SomeI)
  then have g: "get_column X col = Inr x" by (simp add: get_column_def)
  from Cons.prems have rest: "\<forall>c\<in>set cols. c \<in> set (columns X)" by simp
  show ?case
    unfolding resolve_loop_step [OF g] Cons.IH [OF rest]
    by (auto simp: set_row_def x resolved_row_idem)
qed


lemma resolve_low_card_int_result:
  assumes names: "distinct (map fst types)"
    and present: "\<forall>(c, r) \<in> set types. low_card_int r \<longrightarrow> c \<in> set (columns X)"
  shows "resolve_low_card_int guess X types =
           Inr (map (\<lambda>(c, r). if low_card_int r
                                then (c, resolved_row guess (the (map_of X c)) r)
                                else (c, r)) types)"
proof (cases "list_ex (\<lambda>(c, r). low_card_int r) types")
  case False
  then have "map (\<lambda>(c, r). if low_card_int r
                             then (c, resolved_row guess (the (map_of X c)) r)
                             else (c, r)) types = types"
    by (intro map_idI) (auto simp: list_ex_iff)
  with False show ?thesis by (simp add: resolve_low_card_int_def)
next
  case True
  let ?cols = "map fst (filter (\<lambda>(c, r). low_card_int r) types)"
  have "\<forall>c\<in>set ?cols. c \<in> set (columns X)" using present by auto
  from resolve_loop_result [OF this]
  have "resolve_loop guess X ?cols types =
          Inr (map (\<lambda>(c, r). if c \<in> set ?cols
                               then (c, resolved_row guess (the (map_of X c)) r)
                               else (c, r)) types)" .
  moreover have "c \<in> set ?cols \<longleftrightarrow> low_card_int r" if "(c, r) \<in> set types" for c r
    using that names by (force dest: eq_key_imp_eq_value)
  ultimately show ?thesis using True
    by (auto simp: resolve_low_card_int_def intro!: map_cong)
qed

text \<open>
  Claim C10. Let the annotation have one row per column name, let every column typed
  as low-cardinality integer be a column of the dataframe, and let such a row carry
  neither of the flags \<^verbatim>\<open>continuous\<close> and \<^verbatim>\<open>categorical\<close>. Then the loop of \<^verbatim>\<open>plot\<close>
  returns an annotation over the same columns in which no row is typed as
  low-cardinality integer; a row that was is now typed continuous when
  \<^verbatim>\<open>guess_ordinal\<close> holds of its column and categorical otherwise, never both; every
  other row is unchanged; and it is this annotation that the panel functions receive.
\<close>

theorem low_card_int_resolved:
  fixes env :: "('v::linorder, 's::linorder) env"
  assumes names: "distinct (map fst types)"
    and present: "\<forall>(c, r) \<in> set types. low_card_int r \<longrightarrow> c \<in> set (columns X)"
    and one_type:
      "\<forall>(c, r) \<in> set types. low_card_int r \<longrightarrow> \<not> continuous r \<and> \<not> categorical r"
  shows "\<exists>types'. resolve_low_card_int (guess_ordinal env) X types = Inr types'
           \<and> plot env X target_col types = plot_panels env X target_col types'
           \<and> map fst types' = map fst types
           \<and> list_all (\<lambda>(c, r). \<not> low_card_int r) types'
           \<and> (\<forall>i < length types.
                 if low_card_int (snd (types ! i))
                 then \<exists>x. get_column X (fst (types ! i)) = Inr x
                        \<and> continuous (snd (types' ! i)) = guess_ordinal env x
                        \<and> categorical (snd (types' ! i)) = (\<not> guess_ordinal env x)
                 else types' ! i = types ! i)"
proof -
  let ?row = "\<lambda>(c, r). if low_card_int r
                         then (c, resolved_row (guess_ordinal env) (the (map_of X c)) r)
                         else (c, r)"
  have res: "resolve_low_card_int (guess_ordinal env) X types = Inr (map ?row types)"
    by (rule resolve_low_card_int_result [OF names present])
  have "plot env X target_col types = plot_panels env X target_col (map ?row types)"
    by (simp add: plot_def res ebind_def)
  moreover have "map fst (map ?row types) = map fst types"
    by (auto simp: split_def)
  moreover have "list_all (\<lambda>(c, r). \<not> low_card_int r) (map ?row types)"
    by (auto simp: list_all_iff resolved_row_def split: if_splits)
  moreover have "if low_card_int (snd (types ! i))
                 then \<exists>x. get_column X (fst (types ! i)) = Inr x
                        \<and> continuous (snd (map ?row types ! i)) = guess_ordinal env x
                        \<and> categorical (snd (map ?row types ! i)) = (\<not> guess_ordinal env x)
                 else map ?row types ! i = types ! i"
    if i: "i < length types" for i
  proof (cases "types ! i")
    case (Pair c r)
    from i Pair have mem: "(c, r) \<in> set types" by (metis nth_mem)
    show ?thesis
    proof (cases "low_card_int r")
      case False
      with i Pair show ?thesis by simp
    next
      case True
      with mem present have "c \<in> set (columns X)" by auto
      then obtain x where x: "map_of X c = Some x"
        by (auto simp: columns_def dest: weak_map_of_SomeI)
      from True mem one_type have "\<not> continuous r" "\<not> categorical r" by auto
      with i Pair True x show ?thesis
        by (simp add: get_column_def resolved_row_def)
    qed
  qed
  ultimately show ?thesis using res by blast
qed


theorem low_card_int_resolved_witness:
  "\<exists>types'. resolve_low_card_int (guess_ordinal demo_env) demo_X low_card_types = Inr types'
     \<and> plot demo_env demo_X ''y'' low_card_types = plot_panels demo_env demo_X ''y'' types'
     \<and> map fst types' = map fst low_card_types
     \<and> list_all (\<lambda>(c, r). \<not> low_card_int r) types'
     \<and> (\<forall>i < length low_card_types.
           if low_card_int (snd (low_card_types ! i))
           then \<exists>x. get_column demo_X (fst (low_card_types ! i)) = Inr x
                  \<and> continuous (snd (types' ! i)) = guess_ordinal demo_env x
                  \<and> categorical (snd (types' ! i)) = (\<not> guess_ordinal demo_env x)
           else types' ! i = low_card_types ! i)"
proof (rule low_card_int_resolved)
  show "distinct (map fst low_card_types)"
    by (simp add: low_card_types_def)
  show "\<forall>(c, r) \<in> set low_card_types. low_card_int r \<longrightarrow> c \<in> set (columns demo_X)"
    by (simp add: low_card_types_def demo_row_def demo_X_def columns_def)
  show "\<forall>(c, r) \<in> set low_card_types.
          low_card_int r \<longrightarrow> \<not> continuous r \<and> \<not> categorical r"
    by (simp add: low_card_types_def demo_row_def)
qed

lemma demo_resolved:
  "resolve_low_card_int (guess_ordinal demo_env) demo_X low_card_types =
     Inr [(''a'', demo_row True False False), (''b'', demo_row False True False),
          (''c'', demo_row False True False), (''d'', demo_row True False False),
          (''y'', demo_row True False False)]"
  by (simp add: resolve_low_card_int_def ebind_def get_column_def set_row_def
      low_card_types_def demo_row_def demo_X_def demo_env_def nunique_def
      List.map_filter_def)


section \<open>Unwrapping an estimator\<close>






section \<open>Partial dependence plots in \<^verbatim>\<open>explain\<close>\<close>











end
